theory Spec2Isabelle
  imports Main "HOL-Library.Word" "HOL-Library.Monad_Syntax"
begin

unbundle bit_operations_syntax

section \<open>Machine types and memory accesses\<close>

text \<open>
  The fixed-width integers of the C source are words. \<open>size_t\<close> is modelled by \<open>nat\<close>:
  the indices and sizes of these functions refer to buffers that the model holds as
  lists, and no wrap-around at \<open>SIZE_MAX\<close> is modelled (the total that
  \<open>MQTT5_GetPropertiesSize\<close> computes is below \<open>2^32\<close> wherever a statement below
  depends on it). The one narrowing conversion of the source,
  \<open>(uint32_t) propertiesLength\<close>, is written out where it happens.

  A pointer to bytes is modelled by the bytes of the object from the pointed-to address
  up to the end of that object, so \<open>&pBuffer[index]\<close> is \<open>drop index pBuffer\<close>. A
  pointer argument that the source compares with \<open>NULL\<close> is an \<open>option\<close>, \<open>None\<close>
  being \<open>NULL\<close>.

  Every function that reads or writes memory returns an \<open>option\<close>: \<open>None\<close> (written
  \<open>OutOfBounds\<close>) says that the C code accessed an element outside the object it was
  given, which is undefined behaviour in C; \<open>Some r\<close> says that it returned \<open>r\<close>.
\<close>

type_synonym uint8_t = "8 word"
type_synonym uint16_t = "16 word"
type_synonym uint32_t = "32 word"
type_synonym size_t = nat

abbreviation (input) OutOfBounds :: "'a option" where
  "OutOfBounds \<equiv> None"

definition load :: "'a list \<Rightarrow> size_t \<Rightarrow> 'a option" where
  "load xs i = (if i < length xs then Some (xs ! i) else OutOfBounds)"

definition store :: "'a list \<Rightarrow> size_t \<Rightarrow> 'a \<Rightarrow> 'a list option" where
  "store xs i v = (if i < length xs then Some (xs[i := v]) else OutOfBounds)"

text \<open>
  \<open>memcpy(&dst[index], src, n)\<close>: reads \<open>n\<close> bytes of \<open>src\<close> and writes them to
  \<open>dst[index .. index + n - 1]\<close>.
\<close>

definition memcpy :: "uint8_t list \<Rightarrow> size_t \<Rightarrow> uint8_t list \<Rightarrow> size_t \<Rightarrow> uint8_t list option" where
  "memcpy dst index src n =
     (if n \<le> length src \<and> index + n \<le> length dst
      then Some (take index dst @ take n src @ drop (index + n) dst)
      else OutOfBounds)"

section \<open>The data model (core\_mqtt5\_properties.h)\<close>

text \<open>
  Modelled from the spec: the status enumeration \<open>MQTTStatus_t\<close> is declared in
  \<open>core_mqtt_serializer.h\<close>, which is not among the sources. Only the three enumerators
  that the properties codec returns are modelled: success, the invalid-argument status
  (which the codec also returns for malformed wire data and for a property that is not
  found) and the capacity-exceeded status.
\<close>

datatype MQTTStatus_t = MQTTSuccess | MQTTBadParameter | MQTTNoMemory

text \<open>
  \<open>MQTT5PropertyType_t\<close> is a C enumeration. An object of that type can hold values
  that are no enumerator (the deserializer casts any wire byte to it), so it is modelled
  by the integer type that represents it, and the enumerators are names of numbers.
\<close>

type_synonym MQTT5PropertyType_t = uint32_t

abbreviation (input) MQTT5_PROPERTY_PAYLOAD_FORMAT_INDICATOR :: MQTT5PropertyType_t where
  "MQTT5_PROPERTY_PAYLOAD_FORMAT_INDICATOR \<equiv> 0x01"
abbreviation (input) MQTT5_PROPERTY_MESSAGE_EXPIRY_INTERVAL :: MQTT5PropertyType_t where
  "MQTT5_PROPERTY_MESSAGE_EXPIRY_INTERVAL \<equiv> 0x02"
abbreviation (input) MQTT5_PROPERTY_CONTENT_TYPE :: MQTT5PropertyType_t where
  "MQTT5_PROPERTY_CONTENT_TYPE \<equiv> 0x03"
abbreviation (input) MQTT5_PROPERTY_RESPONSE_TOPIC :: MQTT5PropertyType_t where
  "MQTT5_PROPERTY_RESPONSE_TOPIC \<equiv> 0x08"
abbreviation (input) MQTT5_PROPERTY_CORRELATION_DATA :: MQTT5PropertyType_t where
  "MQTT5_PROPERTY_CORRELATION_DATA \<equiv> 0x09"
abbreviation (input) MQTT5_PROPERTY_SUBSCRIPTION_IDENTIFIER :: MQTT5PropertyType_t where
  "MQTT5_PROPERTY_SUBSCRIPTION_IDENTIFIER \<equiv> 0x0B"
abbreviation (input) MQTT5_PROPERTY_SESSION_EXPIRY_INTERVAL :: MQTT5PropertyType_t where
  "MQTT5_PROPERTY_SESSION_EXPIRY_INTERVAL \<equiv> 0x11"
abbreviation (input) MQTT5_PROPERTY_ASSIGNED_CLIENT_IDENTIFIER :: MQTT5PropertyType_t where
  "MQTT5_PROPERTY_ASSIGNED_CLIENT_IDENTIFIER \<equiv> 0x12"
abbreviation (input) MQTT5_PROPERTY_SERVER_KEEP_ALIVE :: MQTT5PropertyType_t where
  "MQTT5_PROPERTY_SERVER_KEEP_ALIVE \<equiv> 0x13"
abbreviation (input) MQTT5_PROPERTY_AUTHENTICATION_METHOD :: MQTT5PropertyType_t where
  "MQTT5_PROPERTY_AUTHENTICATION_METHOD \<equiv> 0x15"
abbreviation (input) MQTT5_PROPERTY_AUTHENTICATION_DATA :: MQTT5PropertyType_t where
  "MQTT5_PROPERTY_AUTHENTICATION_DATA \<equiv> 0x16"
abbreviation (input) MQTT5_PROPERTY_REQUEST_PROBLEM_INFORMATION :: MQTT5PropertyType_t where
  "MQTT5_PROPERTY_REQUEST_PROBLEM_INFORMATION \<equiv> 0x17"
abbreviation (input) MQTT5_PROPERTY_WILL_DELAY_INTERVAL :: MQTT5PropertyType_t where
  "MQTT5_PROPERTY_WILL_DELAY_INTERVAL \<equiv> 0x18"
abbreviation (input) MQTT5_PROPERTY_REQUEST_RESPONSE_INFORMATION :: MQTT5PropertyType_t where
  "MQTT5_PROPERTY_REQUEST_RESPONSE_INFORMATION \<equiv> 0x19"
abbreviation (input) MQTT5_PROPERTY_RESPONSE_INFORMATION :: MQTT5PropertyType_t where
  "MQTT5_PROPERTY_RESPONSE_INFORMATION \<equiv> 0x1A"
abbreviation (input) MQTT5_PROPERTY_SERVER_REFERENCE :: MQTT5PropertyType_t where
  "MQTT5_PROPERTY_SERVER_REFERENCE \<equiv> 0x1C"
abbreviation (input) MQTT5_PROPERTY_REASON_STRING :: MQTT5PropertyType_t where
  "MQTT5_PROPERTY_REASON_STRING \<equiv> 0x1F"
abbreviation (input) MQTT5_PROPERTY_RECEIVE_MAXIMUM :: MQTT5PropertyType_t where
  "MQTT5_PROPERTY_RECEIVE_MAXIMUM \<equiv> 0x21"
abbreviation (input) MQTT5_PROPERTY_TOPIC_ALIAS_MAXIMUM :: MQTT5PropertyType_t where
  "MQTT5_PROPERTY_TOPIC_ALIAS_MAXIMUM \<equiv> 0x22"
abbreviation (input) MQTT5_PROPERTY_TOPIC_ALIAS :: MQTT5PropertyType_t where
  "MQTT5_PROPERTY_TOPIC_ALIAS \<equiv> 0x23"
abbreviation (input) MQTT5_PROPERTY_MAXIMUM_QOS :: MQTT5PropertyType_t where
  "MQTT5_PROPERTY_MAXIMUM_QOS \<equiv> 0x24"
abbreviation (input) MQTT5_PROPERTY_RETAIN_AVAILABLE :: MQTT5PropertyType_t where
  "MQTT5_PROPERTY_RETAIN_AVAILABLE \<equiv> 0x25"
abbreviation (input) MQTT5_PROPERTY_USER_PROPERTY :: MQTT5PropertyType_t where
  "MQTT5_PROPERTY_USER_PROPERTY \<equiv> 0x26"
abbreviation (input) MQTT5_PROPERTY_MAXIMUM_PACKET_SIZE :: MQTT5PropertyType_t where
  "MQTT5_PROPERTY_MAXIMUM_PACKET_SIZE \<equiv> 0x27"
abbreviation (input) MQTT5_PROPERTY_WILDCARD_SUBSCRIPTION_AVAILABLE :: MQTT5PropertyType_t where
  "MQTT5_PROPERTY_WILDCARD_SUBSCRIPTION_AVAILABLE \<equiv> 0x28"
abbreviation (input) MQTT5_PROPERTY_SUBSCRIPTION_IDENTIFIER_AVAILABLE :: MQTT5PropertyType_t where
  "MQTT5_PROPERTY_SUBSCRIPTION_IDENTIFIER_AVAILABLE \<equiv> 0x29"
abbreviation (input) MQTT5_PROPERTY_SHARED_SUBSCRIPTION_AVAILABLE :: MQTT5PropertyType_t where
  "MQTT5_PROPERTY_SHARED_SUBSCRIPTION_AVAILABLE \<equiv> 0x2A"

text \<open>
  \<open>MQTT5Property_t\<close>: the type tag and the union \<open>value\<close>. Each member of the union is a
  field of the record (the members that are structs are flattened, \<open>value.utf8String.length\<close>
  being \<open>utf8String_length\<close>). The C members share storage, the fields here do not: the
  model says nothing about what a write to one member does to the others. Every function
  below reads and writes only the member that its \<open>switch\<close> selects for the type tag.
\<close>

record MQTT5Property_t =
  type :: MQTT5PropertyType_t
  byte :: uint8_t
  twoByteInteger :: uint16_t
  fourByteInteger :: uint32_t
  binaryData_pData :: "uint8_t list"
  binaryData_length :: uint16_t
  utf8String_pString :: "uint8_t list"
  utf8String_length :: uint16_t
  userProperty_pKey :: "uint8_t list"
  userProperty_keyLength :: uint16_t
  userProperty_pValue :: "uint8_t list"
  userProperty_valueLength :: uint16_t

text \<open>
  \<open>MQTT5Properties_t\<close>: \<open>pProperties\<close> is the caller's array that the collection points
  to (the list is the whole array, whatever \<open>capacity\<close> says), \<open>count\<close> the number of
  entries in use.
\<close>

record MQTT5Properties_t =
  pProperties :: "MQTT5Property_t list"
  count :: size_t
  capacity :: size_t

text \<open>
  The three \<open>switch\<close> statements of the source (in \<open>MQTT5_GetPropertiesSize\<close>,
  \<open>MQTT5_SerializeProperties\<close> and \<open>MQTT5_DeserializeProperties\<close>) have the same case
  labels in the same seven groups. \<open>switch_case\<close> is that table: the group of a type tag,
  \<open>None\<close> for \<open>default\<close>.
\<close>

datatype switch_group =
  Byte | TwoByteInteger | FourByteInteger | Utf8String | BinaryData | UserProperty
  | VariableByteInteger

definition switch_case :: "MQTT5PropertyType_t \<Rightarrow> switch_group option" where
  "switch_case t =
     (if t = MQTT5_PROPERTY_PAYLOAD_FORMAT_INDICATOR
         \<or> t = MQTT5_PROPERTY_REQUEST_PROBLEM_INFORMATION
         \<or> t = MQTT5_PROPERTY_REQUEST_RESPONSE_INFORMATION
         \<or> t = MQTT5_PROPERTY_MAXIMUM_QOS
         \<or> t = MQTT5_PROPERTY_RETAIN_AVAILABLE
         \<or> t = MQTT5_PROPERTY_WILDCARD_SUBSCRIPTION_AVAILABLE
         \<or> t = MQTT5_PROPERTY_SUBSCRIPTION_IDENTIFIER_AVAILABLE
         \<or> t = MQTT5_PROPERTY_SHARED_SUBSCRIPTION_AVAILABLE then Some Byte
      else if t = MQTT5_PROPERTY_SERVER_KEEP_ALIVE
         \<or> t = MQTT5_PROPERTY_RECEIVE_MAXIMUM
         \<or> t = MQTT5_PROPERTY_TOPIC_ALIAS_MAXIMUM
         \<or> t = MQTT5_PROPERTY_TOPIC_ALIAS then Some TwoByteInteger
      else if t = MQTT5_PROPERTY_MESSAGE_EXPIRY_INTERVAL
         \<or> t = MQTT5_PROPERTY_SESSION_EXPIRY_INTERVAL
         \<or> t = MQTT5_PROPERTY_WILL_DELAY_INTERVAL
         \<or> t = MQTT5_PROPERTY_MAXIMUM_PACKET_SIZE then Some FourByteInteger
      else if t = MQTT5_PROPERTY_CONTENT_TYPE
         \<or> t = MQTT5_PROPERTY_RESPONSE_TOPIC
         \<or> t = MQTT5_PROPERTY_ASSIGNED_CLIENT_IDENTIFIER
         \<or> t = MQTT5_PROPERTY_AUTHENTICATION_METHOD
         \<or> t = MQTT5_PROPERTY_RESPONSE_INFORMATION
         \<or> t = MQTT5_PROPERTY_SERVER_REFERENCE
         \<or> t = MQTT5_PROPERTY_REASON_STRING then Some Utf8String
      else if t = MQTT5_PROPERTY_CORRELATION_DATA
         \<or> t = MQTT5_PROPERTY_AUTHENTICATION_DATA then Some BinaryData
      else if t = MQTT5_PROPERTY_USER_PROPERTY then Some UserProperty
      else if t = MQTT5_PROPERTY_SUBSCRIPTION_IDENTIFIER then Some VariableByteInteger
      else None)"

section \<open>The collection (core\_mqtt5\_properties.c)\<close>

definition MQTT5_InitProperties ::
  "MQTT5Properties_t option \<Rightarrow> MQTT5Property_t list option \<Rightarrow> size_t
     \<Rightarrow> MQTTStatus_t \<times> MQTT5Properties_t option" where
  "MQTT5_InitProperties pProps pBuffer capacity' =
     (case (pProps, pBuffer) of
        (Some c, Some b) \<Rightarrow>
          if capacity' = 0 then (MQTTBadParameter, pProps)
          else (MQTTSuccess, Some (c\<lparr>pProperties := b, count := 0, capacity := capacity'\<rparr>))
      | _ \<Rightarrow> (MQTTBadParameter, pProps))"

definition MQTT5_AddProperty ::
  "MQTT5Properties_t option \<Rightarrow> MQTT5Property_t option
     \<Rightarrow> (MQTTStatus_t \<times> MQTT5Properties_t option) option" where
  "MQTT5_AddProperty pProps pProperty =
     (case (pProps, pProperty) of
        (Some c, Some p) \<Rightarrow>
          if count c \<ge> capacity c then Some (MQTTNoMemory, pProps)
          else do {
            array \<leftarrow> store (pProperties c) (count c) p;
            Some (MQTTSuccess, Some (c\<lparr>pProperties := array, count := count c + 1\<rparr>))
          }
      | _ \<Rightarrow> Some (MQTTBadParameter, pProps))"

text \<open>
  \<open>MQTT5_GetProperty\<close> writes through \<open>pProperty\<close>, and only on a match. A caller may
  pass a record of its own, or the address of an element of the collection's array
  (\<open>pProperty = &pProperties->pProperties[j]\<close>); in the second case the assignment
  \<open>*pProperty = pProperties->pProperties[i]\<close> writes into the collection. An output
  pointer is therefore either the content of the caller's own record or the index of an
  array element, and the model returns the status, the collection and the output pointer
  after the call.
\<close>

datatype output_pointer = OwnRecord MQTT5Property_t | ArrayElement size_t

text \<open>The assignment \<open>*pProperty = entry\<close>.\<close>

definition assign_output ::
  "MQTT5Properties_t \<Rightarrow> output_pointer \<Rightarrow> MQTT5Property_t
     \<Rightarrow> (MQTT5Properties_t \<times> output_pointer) option" where
  "assign_output pProps pProperty entry =
     (case pProperty of
        OwnRecord _ \<Rightarrow> Some (pProps, OwnRecord entry)
      | ArrayElement j \<Rightarrow> do {
          array \<leftarrow> store (pProperties pProps) j entry;
          Some (pProps\<lparr>pProperties := array\<rparr>, pProperty)
        })"

function GetProperty_loop ::
  "MQTT5Properties_t \<Rightarrow> MQTT5PropertyType_t \<Rightarrow> output_pointer \<Rightarrow> size_t
     \<Rightarrow> (MQTTStatus_t \<times> MQTT5Properties_t \<times> output_pointer) option" where
  "GetProperty_loop pProps type' pProperty i =
     (if i < count pProps then do {
        entry \<leftarrow> load (pProperties pProps) i;
        if type entry = type' then do {
          (pProps, pProperty) \<leftarrow> assign_output pProps pProperty entry;
          Some (MQTTSuccess, pProps, pProperty)
        }
        else GetProperty_loop pProps type' pProperty (i + 1)
      }
      else Some (MQTTBadParameter, pProps, pProperty))"
  by pat_completeness auto
termination
  by (relation "measure (\<lambda>(c, t, p, i). count c - i)") auto

definition MQTT5_GetProperty ::
  "MQTT5Properties_t option \<Rightarrow> MQTT5PropertyType_t \<Rightarrow> output_pointer option
     \<Rightarrow> (MQTTStatus_t \<times> MQTT5Properties_t option \<times> output_pointer option) option" where
  "MQTT5_GetProperty pProps type' pProperty =
     (case (pProps, pProperty) of
        (Some c, Some p) \<Rightarrow> do {
          (status, c', p') \<leftarrow> GetProperty_loop c type' p 0;
          Some (status, Some c', Some p')
        }
      | _ \<Rightarrow> Some (MQTTBadParameter, pProps, pProperty))"

section \<open>Size computation\<close>

text \<open>The \<open>switch\<close> of \<open>MQTT5_GetPropertiesSize\<close>: what one property adds after its identifier.\<close>

definition valueSize :: "MQTT5Property_t \<Rightarrow> size_t" where
  "valueSize pProp =
     (case switch_case (type pProp) of
        Some Byte \<Rightarrow> 1
      | Some TwoByteInteger \<Rightarrow> 2
      | Some FourByteInteger \<Rightarrow> 4
      | Some Utf8String \<Rightarrow> 2 + unat (utf8String_length pProp)
      | Some BinaryData \<Rightarrow> 2 + unat (binaryData_length pProp)
      | Some UserProperty \<Rightarrow>
          2 + unat (userProperty_keyLength pProp) + 2 + unat (userProperty_valueLength pProp)
      | Some VariableByteInteger \<Rightarrow> 4
      | None \<Rightarrow> 0)"

function GetPropertiesSize_loop ::
  "MQTT5Properties_t \<Rightarrow> size_t \<Rightarrow> size_t \<Rightarrow> size_t option" where
  "GetPropertiesSize_loop pProps i totalSize =
     (if i < count pProps then do {
        pProp \<leftarrow> load (pProperties pProps) i;
        GetPropertiesSize_loop pProps (i + 1) (totalSize + 1 + valueSize pProp)
      }
      else Some totalSize)"
  by pat_completeness auto
termination
  by (relation "measure (\<lambda>(c, i, n). count c - i)") auto

definition MQTT5_GetPropertiesSize :: "MQTT5Properties_t option \<Rightarrow> size_t option" where
  "MQTT5_GetPropertiesSize pProps =
     (case pProps of
        Some c \<Rightarrow> GetPropertiesSize_loop c 0 0
      | None \<Rightarrow> Some 0)"

section \<open>The Variable Byte Integer codec\<close>

text \<open>
  \<open>encodeVariableByteInteger\<close> returns the buffer after its writes and \<open>bytesWritten\<close>;
  \<open>MQTT5_DecodeVariableByteInteger\<close> returns \<open>bytesRead\<close> (0 on error) and the final
  content of \<open>*pValue\<close>, which the source overwrites before it reads anything.
\<close>

function encodeVBI_loop ::
  "uint8_t list option \<Rightarrow> size_t \<Rightarrow> uint32_t \<Rightarrow> (uint8_t list option \<times> size_t) option" where
  "encodeVBI_loop pBuffer bytesWritten value =
     (let encodedByte = (ucast (value mod 128) :: uint8_t);
          value' = value div 128;
          encodedByte = (if value' > 0 then encodedByte OR 0x80 else encodedByte)
      in do {
        pBuffer' \<leftarrow> (case pBuffer of
                       None \<Rightarrow> Some None
                     | Some b \<Rightarrow> map_option Some (store b bytesWritten encodedByte));
        if value' > 0
        then encodeVBI_loop pBuffer' (bytesWritten + 1) value'
        else Some (pBuffer', bytesWritten + 1)
      })"
  by pat_completeness auto
termination
proof (relation "measure (\<lambda>(b, n, v). unat v)")
  show "wf (measure (\<lambda>(b, n, v). unat v))" by simp
next
  fix pBuffer :: "uint8_t list option" and bytesWritten :: size_t and v :: uint32_t
    and x xa xb xc
  assume "xa = v div 128" and "0 < xa"
  then have "v \<noteq> 0"
    by auto
  then have "unat v \<noteq> 0"
    by (simp add: unat_eq_0)
  then have "unat (v div 128) < unat v"
    by (simp add: unat_div)
  with \<open>xa = v div 128\<close>
  show "((xc, bytesWritten + 1, xa), pBuffer, bytesWritten, v) \<in> measure (\<lambda>(b, n, v). unat v)"
    by simp
qed


definition encodeVariableByteInteger ::
  "uint8_t list option \<Rightarrow> uint32_t \<Rightarrow> (uint8_t list option \<times> size_t) option" where
  "encodeVariableByteInteger pBuffer value = encodeVBI_loop pBuffer 0 value"

function decodeVBI_loop ::
  "uint8_t list \<Rightarrow> size_t \<Rightarrow> size_t \<Rightarrow> uint32_t \<Rightarrow> uint32_t \<Rightarrow> (size_t \<times> uint32_t) option" where
  "decodeVBI_loop pBuffer bufferSize bytesRead multiplier pValue =
     (if bytesRead \<ge> bufferSize then Some (0, pValue)
      else do {
        encodedByte \<leftarrow> load pBuffer bytesRead;
        let pValue' = pValue + ucast (encodedByte AND 0x7F) * multiplier;
            multiplier' = multiplier * 128;
            bytesRead' = bytesRead + 1
        in if bytesRead' > 4 then Some (0, pValue')
           else if encodedByte AND 0x80 \<noteq> 0
           then decodeVBI_loop pBuffer bufferSize bytesRead' multiplier' pValue'
           else Some (bytesRead', pValue')
      })"
  by pat_completeness auto
termination
  by (relation "measure (\<lambda>(b, n, bytesRead, m, v). 5 - bytesRead)") auto

definition MQTT5_DecodeVariableByteInteger ::
  "uint8_t list \<Rightarrow> size_t \<Rightarrow> (size_t \<times> uint32_t) option" where
  "MQTT5_DecodeVariableByteInteger pBuffer bufferSize = decodeVBI_loop pBuffer bufferSize 0 1 0"


section \<open>The serializer\<close>

text \<open>
  A callee that is given \<open>&pBuffer[index]\<close> writes into the caller's buffer:
  \<open>write_back pBuffer index view\<close> is the caller's buffer once the callee has left
  \<open>view\<close> behind (nothing is written through a \<open>NULL\<close> pointer).
\<close>

definition write_back :: "uint8_t list \<Rightarrow> size_t \<Rightarrow> uint8_t list option \<Rightarrow> uint8_t list" where
  "write_back pBuffer index view =
     (case view of Some v \<Rightarrow> take index pBuffer @ v | None \<Rightarrow> pBuffer)"

text \<open>
  The body of the \<open>for\<close> loop of \<open>MQTT5_SerializeProperties\<close>: writes one property at
  \<open>index\<close> and returns the status, the buffer and the index after it.
\<close>

definition serializeProperty ::
  "uint8_t list \<Rightarrow> size_t \<Rightarrow> MQTT5Property_t \<Rightarrow> (MQTTStatus_t \<times> uint8_t list \<times> size_t) option" where
  "serializeProperty pBuffer index pProp = do {
     pBuffer \<leftarrow> store pBuffer index (ucast (type pProp));
     let index = index + 1 in
     (case switch_case (type pProp) of
        Some Byte \<Rightarrow> do {
          pBuffer \<leftarrow> store pBuffer index (byte pProp);
          Some (MQTTSuccess, pBuffer, index + 1)
        }
      | Some TwoByteInteger \<Rightarrow> do {
          pBuffer \<leftarrow> store pBuffer index (ucast (drop_bit 8 (twoByteInteger pProp)));
          pBuffer \<leftarrow> store pBuffer (index + 1) (ucast (twoByteInteger pProp AND 0xFF));
          Some (MQTTSuccess, pBuffer, index + 2)
        }
      | Some FourByteInteger \<Rightarrow> do {
          pBuffer \<leftarrow> store pBuffer index (ucast (drop_bit 24 (fourByteInteger pProp)));
          pBuffer \<leftarrow> store pBuffer (index + 1)
                      (ucast (drop_bit 16 (fourByteInteger pProp) AND 0xFF));
          pBuffer \<leftarrow> store pBuffer (index + 2)
                      (ucast (drop_bit 8 (fourByteInteger pProp) AND 0xFF));
          pBuffer \<leftarrow> store pBuffer (index + 3) (ucast (fourByteInteger pProp AND 0xFF));
          Some (MQTTSuccess, pBuffer, index + 4)
        }
      | Some Utf8String \<Rightarrow> do {
          pBuffer \<leftarrow> store pBuffer index (ucast (drop_bit 8 (utf8String_length pProp)));
          pBuffer \<leftarrow> store pBuffer (index + 1) (ucast (utf8String_length pProp AND 0xFF));
          let index = index + 2 in do {
            pBuffer \<leftarrow> memcpy pBuffer index (utf8String_pString pProp)
                        (unat (utf8String_length pProp));
            Some (MQTTSuccess, pBuffer, index + unat (utf8String_length pProp))
          }
        }
      | Some BinaryData \<Rightarrow> do {
          pBuffer \<leftarrow> store pBuffer index (ucast (drop_bit 8 (binaryData_length pProp)));
          pBuffer \<leftarrow> store pBuffer (index + 1) (ucast (binaryData_length pProp AND 0xFF));
          let index = index + 2 in do {
            pBuffer \<leftarrow> memcpy pBuffer index (binaryData_pData pProp)
                        (unat (binaryData_length pProp));
            Some (MQTTSuccess, pBuffer, index + unat (binaryData_length pProp))
          }
        }
      | Some UserProperty \<Rightarrow> do {
          pBuffer \<leftarrow> store pBuffer index (ucast (drop_bit 8 (userProperty_keyLength pProp)));
          pBuffer \<leftarrow> store pBuffer (index + 1) (ucast (userProperty_keyLength pProp AND 0xFF));
          let index = index + 2 in do {
            pBuffer \<leftarrow> memcpy pBuffer index (userProperty_pKey pProp)
                        (unat (userProperty_keyLength pProp));
            let index = index + unat (userProperty_keyLength pProp) in do {
              pBuffer \<leftarrow> store pBuffer index
                          (ucast (drop_bit 8 (userProperty_valueLength pProp)));
              pBuffer \<leftarrow> store pBuffer (index + 1)
                          (ucast (userProperty_valueLength pProp AND 0xFF));
              let index = index + 2 in do {
                pBuffer \<leftarrow> memcpy pBuffer index (userProperty_pValue pProp)
                            (unat (userProperty_valueLength pProp));
                Some (MQTTSuccess, pBuffer, index + unat (userProperty_valueLength pProp))
              }
            }
          }
        }
      | Some VariableByteInteger \<Rightarrow> do {
          (view, bytesWritten) \<leftarrow>
            encodeVariableByteInteger (Some (drop index pBuffer)) (fourByteInteger pProp);
          Some (MQTTSuccess, write_back pBuffer index view, index + bytesWritten)
        }
      | None \<Rightarrow> Some (MQTTBadParameter, pBuffer, index))
   }"

function serialize_loop ::
  "MQTT5Properties_t \<Rightarrow> uint8_t list \<Rightarrow> size_t \<Rightarrow> size_t \<Rightarrow> MQTTStatus_t
     \<Rightarrow> (MQTTStatus_t \<times> uint8_t list \<times> size_t) option" where
  "serialize_loop pProps pBuffer index i status =
     (if i < count pProps \<and> status = MQTTSuccess then do {
        pProp \<leftarrow> load (pProperties pProps) i;
        (status, pBuffer, index) \<leftarrow> serializeProperty pBuffer index pProp;
        serialize_loop pProps pBuffer index (i + 1) status
      }
      else Some (status, pBuffer, index))"
  by pat_completeness auto
termination
  by (relation "measure (\<lambda>(c, b, index, i, st). count c - i)") auto

text \<open>
  \<open>MQTT5_SerializeProperties\<close> returns the status, the buffer and \<open>*pSize\<close> after the call.
  The source never reads \<open>*pSize\<close> and never compares an index with the size of the buffer.
\<close>

definition MQTT5_SerializeProperties ::
  "MQTT5Properties_t option \<Rightarrow> uint8_t list option \<Rightarrow> size_t option
     \<Rightarrow> (MQTTStatus_t \<times> uint8_t list option \<times> size_t option) option" where
  "MQTT5_SerializeProperties pProps pBuffer pSize =
     (case (pProps, pBuffer, pSize) of
        (Some c, Some b, Some _) \<Rightarrow> do {
          propertiesLength \<leftarrow> MQTT5_GetPropertiesSize pProps;
          (view, vbiLength) \<leftarrow>
            encodeVariableByteInteger (Some (drop 0 b)) (of_nat propertiesLength);
          (status, b', index) \<leftarrow>
            serialize_loop c (write_back b 0 view) (0 + vbiLength) 0 MQTTSuccess;
          Some (status, Some b', Some index)
        }
      | _ \<Rightarrow> Some (MQTTBadParameter, pBuffer, pSize))"

section \<open>The deserializer\<close>

text \<open>
  The body of the \<open>while\<close> loop of \<open>MQTT5_DeserializeProperties\<close> up to the \<open>switch\<close>:
  reads one property at \<open>index\<close> into the local variable \<open>property\<close>. The
  \<open>SUBSCRIPTION_IDENTIFIER\<close> case assigns the function's variable \<open>vbiLength\<close>, which the
  loop condition reads, so the body returns it with the status, the local and the index.
  A string, binary or user property borrows its bytes: the pointer is \<open>&pBuffer[index]\<close>
  and nothing is read.
\<close>

definition deserializeProperty ::
  "uint8_t list \<Rightarrow> size_t \<Rightarrow> size_t \<Rightarrow> size_t \<Rightarrow> MQTT5Property_t
     \<Rightarrow> (MQTTStatus_t \<times> MQTT5Property_t \<times> size_t \<times> size_t) option" where
  "deserializeProperty pBuffer size' index vbiLength property = do {
     identifier \<leftarrow> load pBuffer index;
     let property = property\<lparr>type := ucast identifier\<rparr>;
         index = index + 1 in
     (case switch_case (type property) of
        Some Byte \<Rightarrow> do {
          b \<leftarrow> load pBuffer index;
          Some (MQTTSuccess, property\<lparr>byte := b\<rparr>, index + 1, vbiLength)
        }
      | Some TwoByteInteger \<Rightarrow> do {
          b0 \<leftarrow> load pBuffer index;
          b1 \<leftarrow> load pBuffer (index + 1);
          Some (MQTTSuccess,
                property\<lparr>twoByteInteger := push_bit 8 (ucast b0) OR ucast b1\<rparr>,
                index + 2, vbiLength)
        }
      | Some FourByteInteger \<Rightarrow> do {
          b0 \<leftarrow> load pBuffer index;
          b1 \<leftarrow> load pBuffer (index + 1);
          b2 \<leftarrow> load pBuffer (index + 2);
          b3 \<leftarrow> load pBuffer (index + 3);
          Some (MQTTSuccess,
                property\<lparr>fourByteInteger :=
                  push_bit 24 (ucast b0) OR push_bit 16 (ucast b1)
                    OR push_bit 8 (ucast b2) OR ucast b3\<rparr>,
                index + 4, vbiLength)
        }
      | Some Utf8String \<Rightarrow> do {
          b0 \<leftarrow> load pBuffer index;
          b1 \<leftarrow> load pBuffer (index + 1);
          let property = property\<lparr>utf8String_length := push_bit 8 (ucast b0) OR ucast b1\<rparr>;
              index = index + 2;
              property = property\<lparr>utf8String_pString := drop index pBuffer\<rparr>
          in Some (MQTTSuccess, property, index + unat (utf8String_length property), vbiLength)
        }
      | Some BinaryData \<Rightarrow> do {
          b0 \<leftarrow> load pBuffer index;
          b1 \<leftarrow> load pBuffer (index + 1);
          let property = property\<lparr>binaryData_length := push_bit 8 (ucast b0) OR ucast b1\<rparr>;
              index = index + 2;
              property = property\<lparr>binaryData_pData := drop index pBuffer\<rparr>
          in Some (MQTTSuccess, property, index + unat (binaryData_length property), vbiLength)
        }
      | Some UserProperty \<Rightarrow> do {
          b0 \<leftarrow> load pBuffer index;
          b1 \<leftarrow> load pBuffer (index + 1);
          let property = property\<lparr>userProperty_keyLength := push_bit 8 (ucast b0) OR ucast b1\<rparr>;
              index = index + 2;
              property = property\<lparr>userProperty_pKey := drop index pBuffer\<rparr>;
              index = index + unat (userProperty_keyLength property)
          in do {
            c0 \<leftarrow> load pBuffer index;
            c1 \<leftarrow> load pBuffer (index + 1);
            let property =
                  property\<lparr>userProperty_valueLength := push_bit 8 (ucast c0) OR ucast c1\<rparr>;
                index = index + 2;
                property = property\<lparr>userProperty_pValue := drop index pBuffer\<rparr>
            in Some (MQTTSuccess, property,
                     index + unat (userProperty_valueLength property), vbiLength)
          }
        }
      | Some VariableByteInteger \<Rightarrow> do {
          (vbiLength, decoded) \<leftarrow>
            MQTT5_DecodeVariableByteInteger (drop index pBuffer) (size' - index);
          let property = property\<lparr>fourByteInteger := decoded\<rparr> in
          if vbiLength = 0 then Some (MQTTBadParameter, property, index, vbiLength)
          else Some (MQTTSuccess, property, index + vbiLength, vbiLength)
        }
      | None \<Rightarrow> Some (MQTTBadParameter, property, index, vbiLength))
   }"

text \<open>
  The \<open>while\<close> loop. \<open>pProps\<close> is the pointer that the loop passes on to
  \<open>MQTT5_AddProperty\<close>; \<open>property\<close> is the local variable, which keeps its content from
  one iteration to the next.
\<close>

function deserialize_loop ::
  "MQTT5Properties_t option \<Rightarrow> uint8_t list \<Rightarrow> size_t \<Rightarrow> size_t \<Rightarrow> uint32_t \<Rightarrow> size_t
     \<Rightarrow> MQTT5Property_t \<Rightarrow> MQTTStatus_t \<Rightarrow> (MQTTStatus_t \<times> MQTT5Properties_t option) option" where
  "deserialize_loop pProps pBuffer size' index propertiesLength vbiLength property status =
     (if index < size' \<and> index < vbiLength + unat propertiesLength \<and> status = MQTTSuccess
      then do {
        (status, property, index, vbiLength) \<leftarrow>
          deserializeProperty pBuffer size' index vbiLength property;
        (status, pProps) \<leftarrow>
          (if status = MQTTSuccess then MQTT5_AddProperty pProps (Some property)
           else Some (status, pProps));
        deserialize_loop pProps pBuffer size' index propertiesLength vbiLength property status
      }
      else Some (status, pProps))"
  by pat_completeness auto
termination
proof (relation "measure (\<lambda>(c, b, size', index, pl, vl, p, st). size' - index)")
  show "wf (measure (\<lambda>(c, b, size', index, pl, vl, p, st). size' - index))"
    by simp
next
  fix pProps :: "MQTT5Properties_t option" and pBuffer :: "uint8_t list"
    and size' index :: size_t and propertiesLength :: uint32_t and vbiLength :: size_t
    and property :: MQTT5Property_t and status :: MQTTStatus_t
    and x :: "MQTTStatus_t \<times> MQTT5Property_t \<times> size_t \<times> size_t"
    and xa :: MQTTStatus_t and y :: "MQTT5Property_t \<times> size_t \<times> size_t"
    and xb :: MQTT5Property_t and ya :: "size_t \<times> size_t" and xc yb :: size_t
    and xd :: "MQTTStatus_t \<times> MQTT5Properties_t option" and xe :: MQTTStatus_t
    and yc :: "MQTT5Properties_t option"
  assume cond: "index < size' \<and> index < vbiLength + unat propertiesLength \<and> status = MQTTSuccess"
    and body: "deserializeProperty pBuffer size' index vbiLength property = Some x"
    and x: "(xa, y) = x" "(xb, ya) = y" "(xc, yb) = ya"
  from body x have "index < xc"
    by (auto simp: deserializeProperty_def Let_def
          split: option.splits switch_group.splits if_splits Option.bind_splits prod.splits)
  with cond
  show "((yc, pBuffer, size', xc, propertiesLength, yb, xb, xe),
          pProps, pBuffer, size', index, propertiesLength, vbiLength, property, status)
        \<in> measure (\<lambda>(c, b, size', index, pl, vl, p, st). size' - index)"
    by auto
qed

text \<open>
  The local variable \<open>property\<close> of \<open>MQTT5_DeserializeProperties\<close> is not initialised in
  the source: its content at entry is the first argument of the model.
\<close>

definition MQTT5_DeserializeProperties ::
  "MQTT5Property_t \<Rightarrow> MQTT5Properties_t option \<Rightarrow> uint8_t list option \<Rightarrow> size_t
     \<Rightarrow> (MQTTStatus_t \<times> MQTT5Properties_t option) option" where
  "MQTT5_DeserializeProperties property pProps pBuffer size' =
     (case (pProps, pBuffer) of
        (Some c, Some b) \<Rightarrow> do {
          (vbiLength, propertiesLength) \<leftarrow> MQTT5_DecodeVariableByteInteger b size';
          if vbiLength = 0 then Some (MQTTBadParameter, pProps)
          else deserialize_loop pProps b size' vbiLength propertiesLength vbiLength property
                 MQTTSuccess
        }
      | _ \<Rightarrow> Some (MQTTBadParameter, pProps))"


section \<open>Entries in use and properties on the wire\<close>

text \<open>The entries of a collection that are in use: the first \<open>count\<close> elements of its array.\<close>

definition entries :: "MQTT5Properties_t \<Rightarrow> MQTT5Property_t list" where
  "entries c = take (count c) (pProperties c)"

text \<open>
  The properties of a block in wire order: the local variable \<open>property\<close> after each
  pass through the body of the deserializer's loop, from the first pass to the last. This
  is the loop of \<open>MQTT5_DeserializeProperties\<close> with its condition and its body, without
  the collection.
\<close>

function wire_properties ::
  "uint8_t list \<Rightarrow> size_t \<Rightarrow> size_t \<Rightarrow> uint32_t \<Rightarrow> size_t \<Rightarrow> MQTT5Property_t
     \<Rightarrow> MQTT5Property_t list" where
  "wire_properties pBuffer size' index propertiesLength vbiLength property =
     (if index < size' \<and> index < vbiLength + unat propertiesLength
      then (case deserializeProperty pBuffer size' index vbiLength property of
              Some (status, property', index', vbiLength') \<Rightarrow>
                if status = MQTTSuccess
                then property' #
                     wire_properties pBuffer size' index' propertiesLength vbiLength' property'
                else []
            | None \<Rightarrow> [])
      else [])"
  by pat_completeness auto
termination
proof (relation "measure (\<lambda>(b, size', index, pl, vl, p). size' - index)")
  show "wf (measure (\<lambda>(b, size', index, pl, vl, p). size' - index))"
    by simp
next
  fix pBuffer :: "uint8_t list" and size' index :: size_t and propertiesLength :: uint32_t
    and vbiLength :: size_t and property :: MQTT5Property_t
    and x2 :: "MQTTStatus_t \<times> MQTT5Property_t \<times> size_t \<times> size_t"
    and x :: MQTTStatus_t and y :: "MQTT5Property_t \<times> size_t \<times> size_t"
    and xa :: MQTT5Property_t and ya :: "size_t \<times> size_t" and xb yb :: size_t
  assume cond: "index < size' \<and> index < vbiLength + unat propertiesLength"
    and body: "deserializeProperty pBuffer size' index vbiLength property = Some x2"
    and x: "(x, y) = x2" "(xa, ya) = y" "(xb, yb) = ya"
  from body x have "index < xb"
    by (auto simp: deserializeProperty_def Let_def
          split: option.splits switch_group.splits if_splits Option.bind_splits prod.splits)
  with cond
  show "((pBuffer, size', xb, propertiesLength, yb, xa),
          pBuffer, size', index, propertiesLength, vbiLength, property)
        \<in> measure (\<lambda>(b, size', index, pl, vl, p). size' - index)"
    by auto
qed

section \<open>Wire images\<close>

text \<open>
  The bytes that \<open>encodeVariableByteInteger\<close> emits for a value, as a list. The proofs
  relate the loops of the encoder and of the decoder to this list; no claim is stated
  about it.
\<close>

function vbi_bytes :: "uint32_t \<Rightarrow> uint8_t list" where
  "vbi_bytes v =
     (if v div 128 > 0 then (ucast (v mod 128) OR 0x80) # vbi_bytes (v div 128)
      else [ucast (v mod 128)])"
  by pat_completeness auto
termination
proof (relation "measure unat")
  show "wf (measure unat)" by simp
next
  fix v :: uint32_t
  assume "0 < v div 128"
  then have "v \<noteq> 0"
    by auto
  then have "unat v \<noteq> 0"
    by (simp add: unat_eq_0)
  then have "unat (v div 128) < unat v"
    by (simp add: unat_div)
  then show "(v div 128, v) \<in> measure unat"
    by simp
qed






section \<open>Valid collections and equal values\<close>



section \<open>Example inputs\<close>

definition zeroProperty :: MQTT5Property_t where
  "zeroProperty =
     \<lparr>type = 0, byte = 0, twoByteInteger = 0, fourByteInteger = 0,
      binaryData_pData = [], binaryData_length = 0,
      utf8String_pString = [], utf8String_length = 0,
      userProperty_pKey = [], userProperty_keyLength = 0,
      userProperty_pValue = [], userProperty_valueLength = 0\<rparr>"

text \<open>A collection over an array of \<open>n\<close> elements whose first entries are \<open>ps\<close>.\<close>

definition collection :: "MQTT5Property_t list \<Rightarrow> size_t \<Rightarrow> MQTT5Properties_t" where
  "collection ps n =
     \<lparr>pProperties = ps @ replicate (n - length ps) zeroProperty,
      count = length ps, capacity = n\<rparr>"

definition sessionExpiry :: MQTT5Property_t where
  "sessionExpiry =
     zeroProperty\<lparr>type := MQTT5_PROPERTY_SESSION_EXPIRY_INTERVAL, fourByteInteger := 3600\<rparr>"

definition subscriptionId :: MQTT5Property_t where
  "subscriptionId =
     zeroProperty\<lparr>type := MQTT5_PROPERTY_SUBSCRIPTION_IDENTIFIER, fourByteInteger := 1\<rparr>"









section \<open>Proof setup\<close>

declare encodeVBI_loop.simps [simp del] decodeVBI_loop.simps [simp del]
  GetProperty_loop.simps [simp del] GetPropertiesSize_loop.simps [simp del]
  serialize_loop.simps [simp del] deserialize_loop.simps [simp del]
  vbi_bytes.simps [simp del] wire_properties.simps [simp del]

lemma collection_simps [simp]:
  "pProperties (collection ps n) = ps @ replicate (n - length ps) zeroProperty"
  "count (collection ps n) = length ps"
  "capacity (collection ps n) = n"
  by (simp_all add: collection_def)

section \<open>The collection\<close>

text \<open>
  C7. Appending to a full collection (\<open>count = capacity\<close>) returns the capacity-exceeded
  status \<open>MQTTNoMemory\<close> and leaves the collection as it was: the array, the count and the
  capacity are the same after the call.
\<close>

theorem AddProperty_full:
  "count c = capacity c \<Longrightarrow> MQTT5_AddProperty (Some c) (Some p) = Some (MQTTNoMemory, Some c)"
  by (simp add: MQTT5_AddProperty_def)

theorem AddProperty_full_witness:
  "count (collection [sessionExpiry] 1) = capacity (collection [sessionExpiry] 1)
   \<and> MQTT5_AddProperty (Some (collection [sessionExpiry] 1)) (Some subscriptionId)
       = Some (MQTTNoMemory, Some (collection [sessionExpiry] 1))"
proof -
  have h: "count (collection [sessionExpiry] 1) = capacity (collection [sessionExpiry] 1)"
    by simp
  from h AddProperty_full [OF h, of subscriptionId] show ?thesis
    by (rule conjI)
qed

lemma GetProperty_loop_not_found:
  "count c \<le> length (pProperties c) \<Longrightarrow>
   \<forall>j. i \<le> j \<and> j < count c \<longrightarrow> type (pProperties c ! j) \<noteq> t \<Longrightarrow>
   GetProperty_loop c t out i = Some (MQTTBadParameter, c, out)"
proof (induction c t out i rule: GetProperty_loop.induct)
  case (1 pProps type' pProperty i)
  show ?case
  proof (cases "i < count pProps")
    case True
    with "1.prems" have ld: "load (pProperties pProps) i = Some (pProperties pProps ! i)"
      and ne: "type (pProperties pProps ! i) \<noteq> type'"
      by (simp_all add: load_def)
    have "GetProperty_loop pProps type' pProperty (i + 1)
        = Some (MQTTBadParameter, pProps, pProperty)"
      using "1.IH" [OF True ld ne] "1.prems" by simp
    with True ld ne show ?thesis
      by (subst GetProperty_loop.simps) simp
  next
    case False
    then show ?thesis
      by (subst GetProperty_loop.simps) simp
  qed
qed

lemma GetProperty_loop_own_record:
  "GetProperty_loop c t (OwnRecord p) i = Some (status, c', out') \<Longrightarrow> c' = c"
proof (induction "count c - i" arbitrary: i)
  case 0
  then show ?case
    by (subst (asm) GetProperty_loop.simps) simp
next
  case (Suc m)
  then have lt: "i < count c"
    by simp
  show ?case
  proof (cases "load (pProperties c) i")
    case None
    with lt Suc.prems show ?thesis
      by (subst (asm) GetProperty_loop.simps) simp
  next
    case (Some entry)
    show ?thesis
    proof (cases "type entry = t")
      case True
      with lt Some Suc.prems show ?thesis
        by (subst (asm) GetProperty_loop.simps) (simp add: assign_output_def)
    next
      case False
      with lt Some Suc.prems
      have "GetProperty_loop c t (OwnRecord p) (i + 1) = Some (status, c', out')"
        by (subst (asm) GetProperty_loop.simps) simp
      moreover from Suc.hyps(2) have "m = count c - (i + 1)"
        by simp
      ultimately show ?thesis
        by (rule Suc.hyps(1) [rotated])
    qed
  qed
qed

text \<open>
  C9, as amended. When no entry in use has the requested type (and the entries in use lie
  inside the array), \<open>MQTT5_GetProperty\<close> returns the not-found status
  \<open>MQTTBadParameter\<close> and writes nothing: the collection and the output record, wherever
  the output pointer points, are what they were before the call. Whatever a call returns,
  the collection after it is the collection before it, provided the output pointer is
  not the address of an element of the collection's array.
\<close>

theorem GetProperty_not_found:
  "(count c \<le> length (pProperties c) \<and> (\<forall>i<count c. type (pProperties c ! i) \<noteq> t)
      \<longrightarrow> MQTT5_GetProperty (Some c) t (Some out) = Some (MQTTBadParameter, Some c, Some out))
   \<and> (\<forall>status pProps' out'.
         MQTT5_GetProperty pProps t pProperty = Some (status, pProps', out')
         \<and> (\<forall>j. pProperty \<noteq> Some (ArrayElement j))
         \<longrightarrow> pProps' = pProps)"
proof (intro conjI impI allI)
  assume "count c \<le> length (pProperties c) \<and> (\<forall>i<count c. type (pProperties c ! i) \<noteq> t)"
  then have "GetProperty_loop c t out 0 = Some (MQTTBadParameter, c, out)"
    by (intro GetProperty_loop_not_found) auto
  then show "MQTT5_GetProperty (Some c) t (Some out) = Some (MQTTBadParameter, Some c, Some out)"
    by (simp add: MQTT5_GetProperty_def)
next
  fix status pProps' out'
  assume run: "MQTT5_GetProperty pProps t pProperty = Some (status, pProps', out')
    \<and> (\<forall>j. pProperty \<noteq> Some (ArrayElement j))"
  show "pProps' = pProps"
  proof (cases pProps)
    case None
    with run show ?thesis
      by (simp add: MQTT5_GetProperty_def)
  next
    case c: (Some c)
    show ?thesis
    proof (cases pProperty)
      case None
      with run c show ?thesis
        by (simp add: MQTT5_GetProperty_def)
    next
      case (Some out)
      with run obtain p where out: "out = OwnRecord p"
        by (cases out) auto
      from run c Some out obtain c' where
        loop: "GetProperty_loop c t (OwnRecord p) 0 = Some (status, c', the out')"
        and r: "pProps' = Some c'"
        by (auto simp: MQTT5_GetProperty_def split: Option.bind_splits)
      from GetProperty_loop_own_record [OF loop] r c show ?thesis
        by simp
    qed
  qed
qed

theorem GetProperty_not_found_witness:
  "MQTT5_GetProperty (Some (collection [sessionExpiry] 1)) MQTT5_PROPERTY_SUBSCRIPTION_IDENTIFIER
     (Some (ArrayElement 0))
   = Some (MQTTBadParameter, Some (collection [sessionExpiry] 1), Some (ArrayElement 0))
   \<and> MQTT5_GetProperty (Some (collection [sessionExpiry] 1)) MQTT5_PROPERTY_SESSION_EXPIRY_INTERVAL
     (Some (OwnRecord zeroProperty))
   = Some (MQTTSuccess, Some (collection [sessionExpiry] 1), Some (OwnRecord sessionExpiry))"
proof
  have h: "count (collection [sessionExpiry] 1) \<le> length (pProperties (collection [sessionExpiry] 1))
      \<and> (\<forall>i<count (collection [sessionExpiry] 1).
            type (pProperties (collection [sessionExpiry] 1) ! i)
              \<noteq> MQTT5_PROPERTY_SUBSCRIPTION_IDENTIFIER)"
    by (simp add: sessionExpiry_def zeroProperty_def)
  from GetProperty_not_found [THEN conjunct1, rule_format, OF h]
  show "MQTT5_GetProperty (Some (collection [sessionExpiry] 1))
          MQTT5_PROPERTY_SUBSCRIPTION_IDENTIFIER (Some (ArrayElement 0))
        = Some (MQTTBadParameter, Some (collection [sessionExpiry] 1), Some (ArrayElement 0))" .
next
  obtain st c' out' where r:
    "MQTT5_GetProperty (Some (collection [sessionExpiry] 1))
       MQTT5_PROPERTY_SESSION_EXPIRY_INTERVAL (Some (OwnRecord zeroProperty))
     = Some (st, c', out')"
    and v: "st = MQTTSuccess" "out' = Some (OwnRecord sessionExpiry)"
    by (simp add: MQTT5_GetProperty_def GetProperty_loop.simps load_def sessionExpiry_def
          zeroProperty_def assign_output_def)
  have own: "\<forall>j. Some (OwnRecord zeroProperty) \<noteq> Some (ArrayElement j)"
    by simp
  from GetProperty_not_found [THEN conjunct2, rule_format, OF conjI [OF r own]] r v
  show "MQTT5_GetProperty (Some (collection [sessionExpiry] 1))
          MQTT5_PROPERTY_SESSION_EXPIRY_INTERVAL (Some (OwnRecord zeroProperty))
        = Some (MQTTSuccess, Some (collection [sessionExpiry] 1), Some (OwnRecord sessionExpiry))"
    by simp
qed

text \<open>
  C9 as stated fails when the output pointer is the address of an array element: looking
  up the \<open>SUBSCRIPTION_IDENTIFIER\<close> of a collection with two entries, with
  \<open>pProperty = &pProperties->pProperties[0]\<close>, finds entry 1 and copies it over entry 0.
\<close>

theorem GetProperty_mutates_counterexample:
  "MQTT5_GetProperty (Some (collection [sessionExpiry, subscriptionId] 2))
     MQTT5_PROPERTY_SUBSCRIPTION_IDENTIFIER (Some (ArrayElement 0))
   = Some (MQTTSuccess, Some (collection [subscriptionId, subscriptionId] 2),
           Some (ArrayElement 0))
   \<and> collection [subscriptionId, subscriptionId] 2 \<noteq> collection [sessionExpiry, subscriptionId] 2"
  by code_simp

section \<open>Size computation and serialization of a subscription identifier\<close>

text \<open>
  C3. \<open>MQTT5_GetPropertiesSize\<close> on a collection that holds one
  \<open>SUBSCRIPTION_IDENTIFIER\<close> of value 1 returns 5: one byte for the identifier and a fixed
  four bytes for the value, although \<open>encodeVariableByteInteger\<close> emits a single byte
  for that value.
\<close>

theorem size_of_subscription_identifier:
  "MQTT5_GetPropertiesSize (Some (collection [subscriptionId] 1)) = Some 5
   \<and> encodeVariableByteInteger None (fourByteInteger subscriptionId) = Some (None, 1)"
  by code_simp

text \<open>
  C4. \<open>MQTT5_SerializeProperties\<close> on that collection writes three bytes and reports 3
  through \<open>*pSize\<close>, while the length prefix it wrote is one byte that encodes 5: the bytes
  written are not the prefix plus the declared length.
\<close>

theorem serialize_subscription_identifier:
  "MQTT5_SerializeProperties (Some (collection [subscriptionId] 1)) (Some (replicate 8 0)) (Some 8)
     = Some (MQTTSuccess, Some [5, 0x0B, 1, 0, 0, 0, 0, 0], Some 3)
   \<and> MQTT5_DecodeVariableByteInteger [5, 0x0B, 1, 0, 0, 0, 0, 0] 3 = Some (1, 5)"
  by code_simp

section \<open>Errors of the Variable Byte Integer decoder\<close>

lemma decodeVBI_loop_fails:
  "bufferSize \<le> length pBuffer \<Longrightarrow> k \<le> 4 \<Longrightarrow>
   \<forall>i. k \<le> i \<and> i < bufferSize \<and> i < 4 \<longrightarrow> pBuffer ! i AND 0x80 \<noteq> 0 \<Longrightarrow>
   \<exists>v. decodeVBI_loop pBuffer bufferSize k m acc = Some (0, v)"
proof (induction pBuffer bufferSize k m acc rule: decodeVBI_loop.induct)
  case (1 pBuffer bufferSize bytesRead multiplier pValue)
  show ?case
  proof (cases "bufferSize \<le> bytesRead")
    case True
    then show ?thesis
      by (subst decodeVBI_loop.simps) simp
  next
    case False
    with "1.prems" have ld: "load pBuffer bytesRead = Some (pBuffer ! bytesRead)"
      by (simp add: load_def)
    show ?thesis
    proof (cases "bytesRead < 4")
      case True
      with False "1.prems" have cont: "pBuffer ! bytesRead AND 0x80 \<noteq> 0"
        by simp
      from True have n4: "\<not> 4 < bytesRead + 1"
        by simp
      have "\<exists>v. decodeVBI_loop pBuffer bufferSize (bytesRead + 1) (multiplier * 128)
                  (pValue + ucast (pBuffer ! bytesRead AND 0x7F) * multiplier) = Some (0, v)"
        using "1.IH" [OF False ld refl refl refl n4 cont] "1.prems" True by simp
      with False ld True cont show ?thesis
        by (subst decodeVBI_loop.simps) (simp add: Let_def)
    next
      case False
      with \<open>\<not> bufferSize \<le> bytesRead\<close> ld show ?thesis
        by (subst decodeVBI_loop.simps) (simp add: Let_def)
    qed
  qed
qed

text \<open>
  C6. On a buffer that holds \<open>bufferSize\<close> bytes, \<open>MQTT5_DecodeVariableByteInteger\<close>
  returns 0, its error signal, whenever each of the first four bytes that the buffer has
  carries the continuation bit: either the input ends before a terminating byte, or a
  fifth byte would be needed. Five continuation bytes are such an input.
\<close>

theorem DecodeVariableByteInteger_fails:
  "bufferSize \<le> length pBuffer \<Longrightarrow>
   \<forall>i. i < bufferSize \<and> i < 4 \<longrightarrow> pBuffer ! i AND 0x80 \<noteq> 0 \<Longrightarrow>
   \<exists>v. MQTT5_DecodeVariableByteInteger pBuffer bufferSize = Some (0, v)"
  unfolding MQTT5_DecodeVariableByteInteger_def
  by (rule decodeVBI_loop_fails) simp_all

theorem DecodeVariableByteInteger_fails_witness:
  "\<exists>v. MQTT5_DecodeVariableByteInteger [0x80, 0x80, 0x80, 0x80, 0x80] 5 = Some (0, v)"
proof -
  have h1: "5 \<le> length [0x80, 0x80, 0x80, 0x80, 0x80 :: uint8_t]"
    by simp
  have h2: "\<forall>i. i < 5 \<and> i < 4 \<longrightarrow> [0x80, 0x80, 0x80, 0x80, 0x80 :: uint8_t] ! i AND 0x80 \<noteq> 0"
  proof (intro allI impI)
    fix i :: nat
    assume "i < 5 \<and> i < 4"
    then have "i = 0 \<or> i = 1 \<or> i = 2 \<or> i = 3"
      by arith
    then show "[0x80, 0x80, 0x80, 0x80, 0x80 :: uint8_t] ! i AND 0x80 \<noteq> 0"
      by auto
  qed
  from DecodeVariableByteInteger_fails [OF h1 h2] show ?thesis .
qed

section \<open>Errors of the deserializer\<close>

text \<open>
  C8. When the loop of \<open>MQTT5_DeserializeProperties\<close> is about to read an identifier byte
  that is no case label of its \<open>switch\<close>, the loop ends with \<open>MQTTBadParameter\<close> and the
  collection as it is at that point: nothing after that byte is parsed or appended.
  In particular this is the result of \<open>MQTT5_DeserializeProperties\<close> when the first
  identifier is unknown.
\<close>

theorem unknown_identifier_aborts:
  "(index < size' \<and> index < vbiLength + unat propertiesLength
      \<and> load pBuffer index = Some identifier \<and> switch_case (ucast identifier) = None
    \<longrightarrow> deserialize_loop pProps pBuffer size' index propertiesLength vbiLength property
          MQTTSuccess = Some (MQTTBadParameter, pProps))
   \<and> (MQTT5_DecodeVariableByteInteger b n = Some (len, declared) \<and> 0 < len \<and> len < n
        \<and> 0 < unat declared \<and> load b len = Some first \<and> switch_case (ucast first) = None
    \<longrightarrow> MQTT5_DeserializeProperties property (Some c) (Some b) n
          = Some (MQTTBadParameter, Some c))"
proof (intro conjI impI)
  assume h: "index < size' \<and> index < vbiLength + unat propertiesLength
      \<and> load pBuffer index = Some identifier \<and> switch_case (ucast identifier) = None"
  then have body: "deserializeProperty pBuffer size' index vbiLength property
      = Some (MQTTBadParameter, property\<lparr>type := ucast identifier\<rparr>, index + 1, vbiLength)"
    by (simp add: deserializeProperty_def)
  have stop: "deserialize_loop pProps pBuffer size' (index + 1) propertiesLength vbiLength
      (property\<lparr>type := ucast identifier\<rparr>) MQTTBadParameter = Some (MQTTBadParameter, pProps)"
    by (subst deserialize_loop.simps) simp
  from h body stop
  show "deserialize_loop pProps pBuffer size' index propertiesLength vbiLength property
          MQTTSuccess = Some (MQTTBadParameter, pProps)"
    by (subst deserialize_loop.simps) simp
next
  assume h: "MQTT5_DecodeVariableByteInteger b n = Some (len, declared) \<and> 0 < len \<and> len < n
        \<and> 0 < unat declared \<and> load b len = Some first \<and> switch_case (ucast first) = None"
  then have body: "deserializeProperty b n len len property
      = Some (MQTTBadParameter, property\<lparr>type := ucast first\<rparr>, len + 1, len)"
    by (simp add: deserializeProperty_def)
  have stop: "deserialize_loop (Some c) b n (len + 1) declared len
      (property\<lparr>type := ucast first\<rparr>) MQTTBadParameter = Some (MQTTBadParameter, Some c)"
    by (subst deserialize_loop.simps) simp
  from h body stop
  have "deserialize_loop (Some c) b n len declared len property MQTTSuccess
      = Some (MQTTBadParameter, Some c)"
    by (subst deserialize_loop.simps) simp
  with h show "MQTT5_DeserializeProperties property (Some c) (Some b) n
          = Some (MQTTBadParameter, Some c)"
    by (simp add: MQTT5_DeserializeProperties_def)
qed

theorem unknown_identifier_aborts_witness:
  "deserialize_loop (Some (collection [] 2)) [2, 7, 1] 3 1 2 1 zeroProperty MQTTSuccess
     = Some (MQTTBadParameter, Some (collection [] 2))
   \<and> MQTT5_DeserializeProperties zeroProperty (Some (collection [] 2)) (Some [2, 7, 1]) 3
     = Some (MQTTBadParameter, Some (collection [] 2))"
proof
  have h: "(1 :: nat) < 3 \<and> (1 :: nat) < 1 + unat (2 :: uint32_t)
      \<and> load [2, 7, 1 :: uint8_t] 1 = Some 7 \<and> switch_case (ucast (7 :: uint8_t)) = None"
    by (simp add: load_def switch_case_def)
  from unknown_identifier_aborts [THEN conjunct1, rule_format, OF h]
  show "deserialize_loop (Some (collection [] 2)) [2, 7, 1] 3 1 2 1 zeroProperty MQTTSuccess
     = Some (MQTTBadParameter, Some (collection [] 2))" .
next
  have h: "MQTT5_DecodeVariableByteInteger [2, 7, 1] 3 = Some (1, 2) \<and> (0 :: nat) < 1
      \<and> (1 :: nat) < 3 \<and> 0 < unat (2 :: uint32_t)
      \<and> load [2, 7, 1 :: uint8_t] 1 = Some 7 \<and> switch_case (ucast (7 :: uint8_t)) = None"
    by (simp add: MQTT5_DecodeVariableByteInteger_def decodeVBI_loop.simps load_def
          switch_case_def)
  from unknown_identifier_aborts [THEN conjunct2, rule_format, OF h]
  show "MQTT5_DeserializeProperties zeroProperty (Some (collection [] 2)) (Some [2, 7, 1]) 3
     = Some (MQTTBadParameter, Some (collection [] 2))" .
qed

text \<open>
  C1. The deserializer reads past the end of its input: on the two bytes \<open>0x05 0x11\<close>
  (a block that declares five bytes of properties and holds one) it reads the identifier
  at index 1 and then \<open>pBuffer[2]\<close>, outside the buffer. On the single byte \<open>0x05\<close> it
  returns \<open>MQTTSuccess\<close> and an unchanged collection, not an error. On the four bytes
  \<open>0x04 0x03 0x00 0xFF\<close>, a \<open>CONTENT_TYPE\<close> string that declares 255 bytes where none
  is left, it returns \<open>MQTTSuccess\<close> and a property whose pointer is the end of the
  buffer and whose length is 255.
\<close>

theorem deserialize_out_of_bounds:
  "MQTT5_DeserializeProperties zeroProperty (Some (collection [] 2)) (Some [0x05, 0x11]) 2
     = OutOfBounds
   \<and> MQTT5_DeserializeProperties zeroProperty (Some (collection [] 2)) (Some [0x05]) 1
     = Some (MQTTSuccess, Some (collection [] 2))
   \<and> MQTT5_DeserializeProperties zeroProperty (Some (collection [] 2))
       (Some [0x04, 0x03, 0x00, 0xFF]) 4
     = Some (MQTTSuccess,
         Some (collection
           [zeroProperty\<lparr>type := MQTT5_PROPERTY_CONTENT_TYPE, utf8String_pString := [],
              utf8String_length := 255\<rparr>] 2))"
  by code_simp


section \<open>The Variable Byte Integer round trip\<close>

subsection \<open>Bytes and bits\<close>

lemma and_7F: "(x :: 'a::len word) AND 0x7F = take_bit 7 x"
  by (simp add: take_bit_eq_mask mask_eq_exp_minus_1)


lemma bit_0x80: "bit (0x80 :: 'a::len word) n \<longleftrightarrow> n = 7 \<and> 7 < LENGTH('a)"
proof -
  have "(0x80 :: 'a word) = 2 ^ 7"
    by simp
  then show ?thesis
    by (simp only: bit_exp_iff) (auto simp: possible_bit_def)
qed

lemma mod128: "(v :: uint32_t) mod 128 = take_bit 7 v"
  by (simp add: take_bit_eq_mod)

lemma continued_byte_value: "ucast ((ucast ((v :: uint32_t) mod 128) OR 0x80 :: uint8_t) AND 0x7F) = v mod 128"
  apply (simp only: mod128)
  apply (simp only: and_7F)
  apply (rule bit_word_eqI)
  apply (auto simp: bit_simps bit_0x80)
  done

lemma continued_byte_flag: "(ucast ((v :: uint32_t) mod 128) OR 0x80 :: uint8_t) AND 0x80 \<noteq> 0"
proof
  assume "(ucast (v mod 128) OR 0x80 :: uint8_t) AND 0x80 = 0"
  then have "\<not> bit ((ucast (v mod 128) OR 0x80 :: uint8_t) AND 0x80) 7"
    by simp
  then show False
    by (simp add: bit_simps bit_0x80)
qed

lemma last_byte_value: "ucast ((ucast ((v :: uint32_t) mod 128) :: uint8_t) AND 0x7F) = v mod 128"
  apply (simp only: mod128)
  apply (simp only: and_7F)
  apply (rule bit_word_eqI)
  apply (auto simp: bit_simps)
  done

lemma last_byte_flag: "(ucast ((v :: uint32_t) mod 128) :: uint8_t) AND 0x80 = 0"
proof (rule bit_word_eqI)
  fix n :: nat
  assume "n < LENGTH(8)"
  show "bit ((ucast (v mod 128) :: uint8_t) AND 0x80) n = bit (0 :: uint8_t) n"
    unfolding mod128 bit_and_iff bit_0x80
    by (simp add: bit_simps)
qed



subsection \<open>The encoder writes, the decoder reads, the wire image\<close>

lemma vbi_bytes_nonempty: "0 < length (vbi_bytes v)"
  by (subst vbi_bytes.simps) simp

lemma vbi_bytes_length_le:
  "0 < n \<Longrightarrow> unat v < 2 ^ (7 * n) \<Longrightarrow> length (vbi_bytes v) \<le> n"
proof (induction n arbitrary: v)
  case 0
  then show ?case by simp
next
  case (Suc n)
  show ?case
  proof (cases "0 < v div 128")
    case False
    then show ?thesis
      by (subst vbi_bytes.simps) simp
  next
    case True
    then have "unat (v div 128) \<noteq> 0"
      by (simp add: unat_eq_0)
    then have ge: "128 \<le> unat v"
      by (simp add: unat_div)
    have n0: "0 < n"
    proof (rule ccontr)
      assume "\<not> 0 < n"
      with Suc.prems ge show False by simp
    qed
    from Suc.prems have "unat v < 128 * 2 ^ (7 * n)"
      by (simp add: power_add)
    then have "unat (v div 128) < 2 ^ (7 * n)"
      by (simp add: unat_div less_mult_imp_div_less mult.commute)
    from Suc.IH [OF n0 this] True show ?thesis
      by (subst vbi_bytes.simps) simp
  qed
qed

lemma encodeVBI_loop_null:
  "encodeVBI_loop None k v = Some (None, k + length (vbi_bytes v))"
proof (induction v arbitrary: k rule: vbi_bytes.induct)
  case (1 v)
  show ?case
  proof (cases "0 < v div 128")
    case True
    from "1.IH" [OF True, of "k + 1"] True show ?thesis
      by (subst encodeVBI_loop.simps, subst vbi_bytes.simps) (simp add: Let_def)
  next
    case False
    then show ?thesis
      by (subst encodeVBI_loop.simps, subst vbi_bytes.simps) (simp add: Let_def)
  qed
qed

lemma encodeVBI_loop_bytes:
  "k \<le> length b \<Longrightarrow>
   encodeVBI_loop (Some b) k v =
     (if k + length (vbi_bytes v) \<le> length b
      then Some (Some (take k b @ vbi_bytes v @ drop (k + length (vbi_bytes v)) b),
                 k + length (vbi_bytes v))
      else None)"
proof (induction v arbitrary: k b rule: vbi_bytes.induct)
  case (1 v)
  show ?case
  proof (cases "k < length b")
    case False
    with "1.prems" vbi_bytes_nonempty [of v] show ?thesis
      by (subst encodeVBI_loop.simps) (simp add: Let_def store_def)
  next
    case klt: True
    show ?thesis
    proof (cases "0 < v div 128")
      case True
      let ?x = "ucast (v mod 128) OR 0x80 :: uint8_t"
      have bytes: "vbi_bytes v = ?x # vbi_bytes (v div 128)"
        using True by (subst vbi_bytes.simps) simp
      have step: "encodeVBI_loop (Some b) k v = encodeVBI_loop (Some (b[k := ?x])) (k + 1) (v div 128)"
        using True klt by (subst encodeVBI_loop.simps) (simp add: Let_def store_def)
      have "k + 1 \<le> length (b[k := ?x])"
        using klt by simp
      note ih = "1.IH" [OF True this]
      have tk: "take (k + 1) (b[k := ?x]) = take k b @ [?x]"
        using klt by (simp add: take_Suc_conv_app_nth)
      show ?thesis
        unfolding step ih bytes using klt tk
        by (simp add: add.commute add.left_commute)
    next
      case False
      have bytes: "vbi_bytes v = [ucast (v mod 128)]"
        using False by (subst vbi_bytes.simps) simp
      have upd: "b[k := ucast (v mod 128)] = take k b @ [ucast (v mod 128)] @ drop (k + 1) b"
        using klt by (simp add: upd_conv_take_nth_drop)
      show ?thesis
        using False klt upd unfolding bytes
        by (subst encodeVBI_loop.simps) (simp add: Let_def store_def)
    qed
  qed
qed

lemma decodeVBI_loop_bytes:
  "k + length (vbi_bytes v) \<le> 4 \<Longrightarrow> k + length (vbi_bytes v) \<le> bufferSize \<Longrightarrow>
   k + length (vbi_bytes v) \<le> length buf \<Longrightarrow>
   take (length (vbi_bytes v)) (drop k buf) = vbi_bytes v \<Longrightarrow>
   decodeVBI_loop buf bufferSize k m acc = Some (k + length (vbi_bytes v), acc + v * m)"
proof (induction v arbitrary: k m acc rule: vbi_bytes.induct)
  case (1 v)
  from "1.prems" vbi_bytes_nonempty [of v] have klt: "k < bufferSize" "k < length buf" "k < 4"
    by linarith+
  then have ld: "load buf k = Some (buf ! k)"
    by (simp add: load_def)
  have split: "drop k buf = buf ! k # drop (k + 1) buf"
    using klt by (simp add: Cons_nth_drop_Suc)
  have "hd (vbi_bytes v) = hd (take (length (vbi_bytes v)) (drop k buf))"
    using "1.prems"(4) by simp
  also have "\<dots> = hd (drop k buf)"
    using vbi_bytes_nonempty [of v] by (simp add: hd_take)
  finally have hd: "buf ! k = hd (vbi_bytes v)"
    using split by simp
  show ?case
  proof (cases "0 < v div 128")
    case True
    let ?x = "ucast (v mod 128) OR 0x80 :: uint8_t"
    have bytes: "vbi_bytes v = ?x # vbi_bytes (v div 128)"
      using True by (subst vbi_bytes.simps) simp
    have tl: "take (length (vbi_bytes (v div 128))) (drop (k + 1) buf) = vbi_bytes (v div 128)"
      using "1.prems"(4) unfolding bytes split by simp
    have ih: "decodeVBI_loop buf bufferSize (k + 1) (m * 128) (acc + (v mod 128) * m)
        = Some (k + 1 + length (vbi_bytes (v div 128)), acc + (v mod 128) * m + (v div 128) * (m * 128))"
      using "1.prems" tl unfolding bytes
      by (intro "1.IH" [OF True]) simp_all
    have "(v mod 128) * m + (v div 128) * (m * 128) = (v div 128 * 128 + v mod 128) * m"
      by (simp add: algebra_simps)
    also have "\<dots> = v * m"
      by (simp only: div_mult_mod_eq)
    finally have sum: "acc + (v mod 128) * m + (v div 128) * (m * 128) = acc + v * m"
      by (simp only: add.assoc)
    from "1.prems" have k3: "\<not> 4 < k + 1"
      unfolding bytes by simp
    show ?thesis
      using klt ld hd k3 ih sum unfolding bytes
      by (subst decodeVBI_loop.simps) (simp add: Let_def continued_byte_value continued_byte_flag)
  next
    case False
    have bytes: "vbi_bytes v = [ucast (v mod 128)]"
      using False by (subst vbi_bytes.simps) simp
    from False have "v div 128 = 0"
      by (simp add: word_greater_zero_iff)
    then have small: "v mod 128 = v"
      by (metis add.left_neutral div_mult_mod_eq mult_zero_left)
    have w3: "ucast ((ucast v :: uint8_t) AND 0x7F) = v"
      using last_byte_value [of v] small by simp
    have w4: "(ucast v :: uint8_t) AND 0x80 = 0"
      using last_byte_flag [of v] small by simp
    show ?thesis
      using klt ld hd small w3 w4 unfolding bytes
      by (subst decodeVBI_loop.simps) (simp add: Let_def)
  qed
qed

lemma vbi_bytes_length_4: "v \<le> 268435455 \<Longrightarrow> length (vbi_bytes v) \<le> 4"
proof -
  assume "v \<le> 268435455"
  then have "unat v \<le> 268435455"
    by (simp add: word_le_nat_alt)
  then have "unat v < 2 ^ (7 * 4)"
    by simp
  then show ?thesis
    by (intro vbi_bytes_length_le) simp_all
qed

lemma encodeVariableByteInteger_bytes:
  "encodeVariableByteInteger (Some b) v =
     (if length (vbi_bytes v) \<le> length b
      then Some (Some (vbi_bytes v @ drop (length (vbi_bytes v)) b), length (vbi_bytes v))
      else None)"
  unfolding encodeVariableByteInteger_def
  by (subst encodeVBI_loop_bytes) simp_all

lemma DecodeVariableByteInteger_bytes:
  "length (vbi_bytes v) \<le> 4 \<Longrightarrow> length (vbi_bytes v) \<le> bufferSize \<Longrightarrow>
   MQTT5_DecodeVariableByteInteger (vbi_bytes v @ rest) bufferSize
     = Some (length (vbi_bytes v), v)"
  unfolding MQTT5_DecodeVariableByteInteger_def
  by (subst decodeVBI_loop_bytes [where v = v]) simp_all

text \<open>
  C5. For a value \<open>v\<close> of at most 268435455: when the encoder returns on a buffer it has
  written between one and four bytes, and \<open>MQTT5_DecodeVariableByteInteger\<close> on those
  bytes (alone, or followed by anything, with any size that covers them) returns the
  number of bytes written and \<open>v\<close>. On a buffer of at least four bytes the encoder
  returns. The boundary values 127, 128, 16383 and 16384 are encoded as \<open>7F\<close>,
  \<open>80 01\<close>, \<open>FF 7F\<close> and \<open>80 80 01\<close>.
\<close>

theorem VBI_round_trip:
  "(v \<le> 268435455 \<and> encodeVariableByteInteger (Some pBuffer) v = Some (view, n)
      \<longrightarrow> (\<exists>b. view = Some b \<and> 1 \<le> n \<and> n \<le> 4
             \<and> MQTT5_DecodeVariableByteInteger (take n b) n = Some (n, v)
             \<and> (\<forall>size'. n \<le> size' \<longrightarrow> MQTT5_DecodeVariableByteInteger b size' = Some (n, v))))
   \<and> (v \<le> 268435455 \<and> 4 \<le> length pBuffer
      \<longrightarrow> (\<exists>view n. encodeVariableByteInteger (Some pBuffer) v = Some (view, n)))
   \<and> encodeVariableByteInteger (Some [0, 0, 0, 0]) 127 = Some (Some [0x7F, 0, 0, 0], 1)
   \<and> encodeVariableByteInteger (Some [0, 0, 0, 0]) 128 = Some (Some [0x80, 0x01, 0, 0], 2)
   \<and> encodeVariableByteInteger (Some [0, 0, 0, 0]) 16383 = Some (Some [0xFF, 0x7F, 0, 0], 2)
   \<and> encodeVariableByteInteger (Some [0, 0, 0, 0]) 16384 = Some (Some [0x80, 0x80, 0x01, 0], 3)"
proof (intro conjI impI)
  assume h: "v \<le> 268435455 \<and> encodeVariableByteInteger (Some pBuffer) v = Some (view, n)"
  let ?bytes = "vbi_bytes v"
  let ?b = "?bytes @ drop (length ?bytes) pBuffer"
  from h have len4: "length ?bytes \<le> 4"
    by (simp add: vbi_bytes_length_4)
  from h have res: "view = Some ?b" "n = length ?bytes"
    by (auto simp: encodeVariableByteInteger_bytes split: if_splits)
  have one: "1 \<le> length ?bytes"
    using vbi_bytes_nonempty [of v] by linarith
  have exact: "MQTT5_DecodeVariableByteInteger (take n ?b) n = Some (n, v)"
    using DecodeVariableByteInteger_bytes [OF len4, of n "[]"] res by simp
  have any: "\<forall>size'. n \<le> size' \<longrightarrow> MQTT5_DecodeVariableByteInteger ?b size' = Some (n, v)"
    using DecodeVariableByteInteger_bytes [OF len4] res by simp
  from res one len4 exact any
  show "\<exists>b. view = Some b \<and> 1 \<le> n \<and> n \<le> 4
      \<and> MQTT5_DecodeVariableByteInteger (take n b) n = Some (n, v)
      \<and> (\<forall>size'. n \<le> size' \<longrightarrow> MQTT5_DecodeVariableByteInteger b size' = Some (n, v))"
    by simp
next
  assume h: "v \<le> 268435455 \<and> 4 \<le> length pBuffer"
  then have "length (vbi_bytes v) \<le> length pBuffer"
    using vbi_bytes_length_4 [of v] by simp
  then show "\<exists>view n. encodeVariableByteInteger (Some pBuffer) v = Some (view, n)"
    by (simp add: encodeVariableByteInteger_bytes)
qed code_simp+

theorem VBI_round_trip_witness:
  "encodeVariableByteInteger (Some [0, 0, 0, 0]) 300 = Some (Some [0xAC, 0x02, 0, 0], 2)
   \<and> MQTT5_DecodeVariableByteInteger [0xAC, 0x02] 2 = Some (2, 300)
   \<and> MQTT5_DecodeVariableByteInteger [0xAC, 0x02, 0, 0] 4 = Some (2, 300)"
proof -
  have e: "encodeVariableByteInteger (Some [0, 0, 0, 0]) 300 = Some (Some [0xAC, 0x02, 0, 0], 2)"
    by code_simp
  have h: "(300 :: uint32_t) \<le> 268435455
      \<and> encodeVariableByteInteger (Some [0, 0, 0, 0]) 300 = Some (Some [0xAC, 0x02, 0, 0], 2)"
    using e by simp
  from VBI_round_trip [THEN conjunct1, rule_format, OF h]
  have d: "MQTT5_DecodeVariableByteInteger (take 2 [0xAC, 0x02, 0, 0]) 2 = Some (2, 300)"
    and a: "\<forall>size'. 2 \<le> size'
          \<longrightarrow> MQTT5_DecodeVariableByteInteger [0xAC, 0x02, 0, 0] size' = Some (2, 300)"
    by auto
  from a have "MQTT5_DecodeVariableByteInteger [0xAC, 0x02, 0, 0] 4 = Some (2, 300)"
    by simp
  with e d show ?thesis
    by simp
qed


section \<open>The deserializer appends\<close>

lemma deserializeProperty_index:
  "deserializeProperty b n idx vl property = Some (st, property', idx', vl') \<Longrightarrow> idx < idx'"
  by (auto simp: deserializeProperty_def Let_def
        split: option.splits switch_group.splits if_splits Option.bind_splits prod.splits)

lemma AddProperty_success:
  "MQTT5_AddProperty (Some c) (Some p) = Some (MQTTSuccess, r) \<Longrightarrow>
   \<exists>c'. r = Some c' \<and> capacity c' = capacity c \<and> count c' = count c + 1
      \<and> length (pProperties c') = length (pProperties c)
      \<and> entries c' = entries c @ [p]
      \<and> drop (count c') (pProperties c') = drop (count c') (pProperties c)"
  by (auto simp: MQTT5_AddProperty_def store_def entries_def take_Suc_conv_app_nth
        split: if_splits)

lemma deserialize_loop_stops:
  "st \<noteq> MQTTSuccess \<Longrightarrow> deserialize_loop pc b n idx pl vl property st = Some (st, pc)"
  by (subst deserialize_loop.simps) simp

lemma AddProperty_status:
  "MQTT5_AddProperty (Some c) (Some p) = Some (st, r) \<Longrightarrow>
   st = MQTTSuccess \<or> (st = MQTTNoMemory \<and> r = Some c)"
  by (auto simp: MQTT5_AddProperty_def split: if_splits Option.bind_splits)

lemma AddProperty_keeps:
  "MQTT5_AddProperty (Some c) (Some p) = Some (MQTTSuccess, Some c') \<Longrightarrow>
   take (count c) (pProperties c') = take (count c) (pProperties c)"
  by (auto simp: MQTT5_AddProperty_def store_def split: if_splits)

lemma deserialize_loop_appends:
  "deserialize_loop (Some c) b n idx pl vl property MQTTSuccess = Some (status, r) \<Longrightarrow>
   \<exists>c'. r = Some c' \<and> capacity c' = capacity c
      \<and> length (pProperties c') = length (pProperties c)
      \<and> count c \<le> count c'
      \<and> take (count c) (pProperties c') = take (count c) (pProperties c)
      \<and> entries c' = entries c @ take (count c' - count c) (wire_properties b n idx pl vl property)
      \<and> drop (count c') (pProperties c') = drop (count c') (pProperties c)
      \<and> (status = MQTTSuccess
           \<longrightarrow> count c' = count c + length (wire_properties b n idx pl vl property))"
proof (induction "n - idx" arbitrary: idx c vl property rule: less_induct)
  case less
  show ?case
  proof (cases "idx < n \<and> idx < vl + unat pl")
    case False
    then have "deserialize_loop (Some c) b n idx pl vl property MQTTSuccess
        = Some (MQTTSuccess, Some c)"
      by (subst deserialize_loop.simps) auto
    moreover from False have "wire_properties b n idx pl vl property = []"
      by (subst wire_properties.simps) auto
    ultimately show ?thesis
      using less.prems by auto
  next
    case True
    show ?thesis
    proof (cases "deserializeProperty b n idx vl property")
      case None
      with True less.prems show ?thesis
        by (subst (asm) deserialize_loop.simps) simp
    next
      case (Some res)
      then obtain st property' idx' vl' where
        body: "deserializeProperty b n idx vl property = Some (st, property', idx', vl')"
        by (cases res) auto
      from deserializeProperty_index [OF body] have adv: "idx < idx'" .
      show ?thesis
      proof (cases "st = MQTTSuccess")
        case False
        with True body less.prems have "status = st" "r = Some c"
          by (subst (asm) deserialize_loop.simps, simp add: deserialize_loop_stops)+
        with False show ?thesis
          by simp
      next
        case st: True
        have wp: "wire_properties b n idx pl vl property
            = property' # wire_properties b n idx' pl vl' property'"
          using True body st by (subst wire_properties.simps) simp
        show ?thesis
        proof (cases "MQTT5_AddProperty (Some c) (Some property')")
          case None
          with True body st less.prems show ?thesis
            by (subst (asm) deserialize_loop.simps) simp
        next
          case (Some added)
          then obtain st2 r2 where
            add: "MQTT5_AddProperty (Some c) (Some property') = Some (st2, r2)"
            by (cases added) auto
          from True body st add less.prems
          have rec: "deserialize_loop r2 b n idx' pl vl' property' st2 = Some (status, r)"
            by (subst (asm) deserialize_loop.simps) simp
          show ?thesis
          proof (cases "st2 = MQTTSuccess")
            case False
            with AddProperty_status [OF add] have "st2 = MQTTNoMemory" "r2 = Some c"
              by simp_all
            with rec False have "status = MQTTNoMemory" "r = Some c"
              by (simp_all add: deserialize_loop_stops)
            then show ?thesis
              by simp
          next
            case st2: True
            from AddProperty_success [OF add [unfolded st2]] obtain c1 where
              c1: "r2 = Some c1" "capacity c1 = capacity c" "count c1 = count c + 1"
                "length (pProperties c1) = length (pProperties c)"
                "entries c1 = entries c @ [property']"
                "drop (count c1) (pProperties c1) = drop (count c1) (pProperties c)"
              by auto
            from AddProperty_keeps [OF add [unfolded st2 c1(1)]]
            have keep1: "take (count c) (pProperties c1) = take (count c) (pProperties c)" .
            have "n - idx' < n - idx"
              using True adv by auto
            from less.hyps [OF this rec [unfolded c1 st2]] obtain c' where
              c': "r = Some c'" "capacity c' = capacity c1"
                "length (pProperties c') = length (pProperties c1)"
                "count c1 \<le> count c'"
                "take (count c1) (pProperties c') = take (count c1) (pProperties c1)"
                "entries c' = entries c1
                   @ take (count c' - count c1) (wire_properties b n idx' pl vl' property')"
                "drop (count c') (pProperties c') = drop (count c') (pProperties c1)"
                "status = MQTTSuccess
                   \<longrightarrow> count c' = count c1 + length (wire_properties b n idx' pl vl' property')"
              by auto
            have le: "count c \<le> count c'"
              using c1(3) c'(4) by simp
            have "take (count c) (pProperties c')
                = take (count c) (take (count c1) (pProperties c'))"
              using c1(3) by (simp add: min_def)
            also have "\<dots> = take (count c) (take (count c1) (pProperties c1))"
              by (simp only: c'(5))
            also have "\<dots> = take (count c) (pProperties c1)"
              using c1(3) by (simp add: min_def)
            finally have keep: "take (count c) (pProperties c') = take (count c) (pProperties c)"
              using keep1 by simp
            obtain k where k: "count c' = k + count c1"
              using c'(4) by (metis le_add_diff_inverse2)
            have dr: "drop (count c') (pProperties c1) = drop (count c') (pProperties c)"
            proof -
              have "drop (count c') (pProperties c1) = drop k (drop (count c1) (pProperties c1))"
                by (simp add: k)
              also have "\<dots> = drop k (drop (count c1) (pProperties c))"
                by (simp only: c1(6))
              finally show ?thesis
                by (simp add: k)
            qed
            have ent: "entries c' = entries c
                @ take (count c' - count c) (wire_properties b n idx pl vl property)"
              using c'(6) c1(3,5) k unfolding wp by simp
            have suc: "status = MQTTSuccess
                \<longrightarrow> count c' = count c + length (wire_properties b n idx pl vl property)"
              using c'(8) c1(3) unfolding wp by simp
            from c'(1,2,3,7) c1(2,4) le keep dr ent suc show ?thesis
              by simp
          qed
        qed
      qed
    qed
  qed
qed

text \<open>
  C10. Whatever status \<open>MQTT5_DeserializeProperties\<close> returns, it never resets the count:
  the count after the call is at least the count before it, the array elements below the
  old count are unchanged, and the entries in use are the entries that were in use
  before the call, in their order, followed by the properties that were appended, which
  are the first properties of the block in wire order. The capacity and the array
  beyond the new count are unchanged. When the status is \<open>MQTTSuccess\<close>, every property
  of the block was appended: the entries in use are the old entries followed by the
  properties of the block in wire order. Without a buffer the collection is returned as
  it is.
\<close>

theorem Deserialize_appends:
  "(MQTT5_DeserializeProperties property (Some c) (Some b) n = Some (status, r) \<longrightarrow>
     (\<exists>c' vbiLength propertiesLength.
        MQTT5_DecodeVariableByteInteger b n = Some (vbiLength, propertiesLength)
        \<and> r = Some c' \<and> capacity c' = capacity c
        \<and> length (pProperties c') = length (pProperties c)
        \<and> count c \<le> count c'
        \<and> take (count c) (pProperties c') = take (count c) (pProperties c)
        \<and> entries c' =
            entries c @ take (count c' - count c)
              (wire_properties b n vbiLength propertiesLength vbiLength property)
        \<and> drop (count c') (pProperties c') = drop (count c') (pProperties c)
        \<and> (status = MQTTSuccess \<longrightarrow>
             count c' =
               count c + length (wire_properties b n vbiLength propertiesLength vbiLength property)
             \<and> entries c' =
               entries c @ wire_properties b n vbiLength propertiesLength vbiLength property)))
   \<and> MQTT5_DeserializeProperties property (Some c) None n = Some (MQTTBadParameter, Some c)"
proof (intro conjI impI)
  assume run: "MQTT5_DeserializeProperties property (Some c) (Some b) n = Some (status, r)"
  then obtain vl pl where
    dec: "MQTT5_DecodeVariableByteInteger b n = Some (vl, pl)"
    by (cases "MQTT5_DecodeVariableByteInteger b n")
       (auto simp: MQTT5_DeserializeProperties_def)
  let ?W = "wire_properties b n vl pl vl property"
  show "\<exists>c' vbiLength propertiesLength.
        MQTT5_DecodeVariableByteInteger b n = Some (vbiLength, propertiesLength)
        \<and> r = Some c' \<and> capacity c' = capacity c
        \<and> length (pProperties c') = length (pProperties c)
        \<and> count c \<le> count c'
        \<and> take (count c) (pProperties c') = take (count c) (pProperties c)
        \<and> entries c' =
            entries c @ take (count c' - count c)
              (wire_properties b n vbiLength propertiesLength vbiLength property)
        \<and> drop (count c') (pProperties c') = drop (count c') (pProperties c)
        \<and> (status = MQTTSuccess \<longrightarrow>
             count c' =
               count c + length (wire_properties b n vbiLength propertiesLength vbiLength property)
             \<and> entries c' =
               entries c @ wire_properties b n vbiLength propertiesLength vbiLength property)"
  proof (cases "vl = 0")
    case True
    with run dec have "status = MQTTBadParameter" "r = Some c"
      by (simp_all add: MQTT5_DeserializeProperties_def)
    with dec show ?thesis
      by simp
  next
    case False
    with run dec have "deserialize_loop (Some c) b n vl pl vl property MQTTSuccess
        = Some (status, r)"
      by (simp add: MQTT5_DeserializeProperties_def)
    from deserialize_loop_appends [OF this] obtain c' where
      c': "r = Some c'" "capacity c' = capacity c"
        "length (pProperties c') = length (pProperties c)" "count c \<le> count c'"
        "take (count c) (pProperties c') = take (count c) (pProperties c)"
        "entries c' = entries c @ take (count c' - count c) ?W"
        "drop (count c') (pProperties c') = drop (count c') (pProperties c)"
        "status = MQTTSuccess \<longrightarrow> count c' = count c + length ?W"
      by auto
    have "status = MQTTSuccess \<longrightarrow> entries c' = entries c @ ?W"
      using c'(6,8) by auto
    with dec c' show ?thesis
      by auto
  qed
next
  show "MQTT5_DeserializeProperties property (Some c) None n = Some (MQTTBadParameter, Some c)"
    by (simp add: MQTT5_DeserializeProperties_def)
qed

theorem Deserialize_appends_witness:
  "MQTT5_DeserializeProperties zeroProperty (Some (collection [sessionExpiry] 3))
     (Some [2, 0x24, 1]) 3
     = Some (MQTTSuccess,
         Some (collection [sessionExpiry,
                 zeroProperty\<lparr>type := MQTT5_PROPERTY_MAXIMUM_QOS, byte := 1\<rparr>] 3))
   \<and> entries (collection [sessionExpiry,
                 zeroProperty\<lparr>type := MQTT5_PROPERTY_MAXIMUM_QOS, byte := 1\<rparr>] 3)
     = entries (collection [sessionExpiry] 3) @ wire_properties [2, 0x24, 1] 3 1 2 1 zeroProperty
   \<and> wire_properties [2, 0x24, 1] 3 1 2 1 zeroProperty
     = [zeroProperty\<lparr>type := MQTT5_PROPERTY_MAXIMUM_QOS, byte := 1\<rparr>]
   \<and> MQTT5_DeserializeProperties zeroProperty (Some (collection [sessionExpiry] 2))
     (Some [4, 0x24, 1, 0x25, 0]) 5
     = Some (MQTTNoMemory,
         Some (collection [sessionExpiry,
                 zeroProperty\<lparr>type := MQTT5_PROPERTY_MAXIMUM_QOS, byte := 1\<rparr>] 2))
   \<and> entries (collection [sessionExpiry,
                 zeroProperty\<lparr>type := MQTT5_PROPERTY_MAXIMUM_QOS, byte := 1\<rparr>] 2)
     = entries (collection [sessionExpiry] 2)
         @ take 1 (wire_properties [4, 0x24, 1, 0x25, 0] 5 1 4 1 zeroProperty)"
proof -
  have run: "MQTT5_DeserializeProperties zeroProperty (Some (collection [sessionExpiry] 3))
     (Some [2, 0x24, 1]) 3
     = Some (MQTTSuccess,
         Some (collection [sessionExpiry,
                 zeroProperty\<lparr>type := MQTT5_PROPERTY_MAXIMUM_QOS, byte := 1\<rparr>] 3))"
    by code_simp
  have full: "MQTT5_DeserializeProperties zeroProperty (Some (collection [sessionExpiry] 2))
     (Some [4, 0x24, 1, 0x25, 0]) 5
     = Some (MQTTNoMemory,
         Some (collection [sessionExpiry,
                 zeroProperty\<lparr>type := MQTT5_PROPERTY_MAXIMUM_QOS, byte := 1\<rparr>] 2))"
    by code_simp
  have dec2: "MQTT5_DecodeVariableByteInteger [4, 0x24, 1, 0x25, 0] 5 = Some (1, 4)"
    by code_simp
  have dec: "MQTT5_DecodeVariableByteInteger [2, 0x24, 1] 3 = Some (1, 2)"
    by code_simp
  have wp: "wire_properties [2, 0x24, 1] 3 1 2 1 zeroProperty
     = [zeroProperty\<lparr>type := MQTT5_PROPERTY_MAXIMUM_QOS, byte := 1\<rparr>]"
    by code_simp
  from Deserialize_appends [THEN conjunct1, rule_format, OF run] dec
  have ok: "entries (collection [sessionExpiry,
                 zeroProperty\<lparr>type := MQTT5_PROPERTY_MAXIMUM_QOS, byte := 1\<rparr>] 3)
     = entries (collection [sessionExpiry] 3) @ wire_properties [2, 0x24, 1] 3 1 2 1 zeroProperty"
    by auto
  from Deserialize_appends [THEN conjunct1, rule_format, OF full] dec2
  have no: "entries (collection [sessionExpiry,
                 zeroProperty\<lparr>type := MQTT5_PROPERTY_MAXIMUM_QOS, byte := 1\<rparr>] 2)
     = entries (collection [sessionExpiry] 2)
         @ take 1 (wire_properties [4, 0x24, 1, 0x25, 0] 5 1 4 1 zeroProperty)"
    by auto
  from run ok wp full no show ?thesis
    by (intro conjI)
qed

section \<open>The round trip through the serializer and the deserializer\<close>

subsection \<open>The serializer writes the wire image\<close>














subsection \<open>The deserializer reads the wire image\<close>



















subsection \<open>A collection that does not come back\<close>









end
